theory Spec2Isabelle
  imports Main "HOL-Library.Sublist"
begin

section \<open>Strings, file names and paths\<close>

text \<open>
  Python's \<^verbatim>\<open>str.endswith(suffix)\<close>: the last \<open>length suf\<close> characters of \<open>s\<close>
  are \<open>suf\<close>. The comparison is by character, so it distinguishes upper and lower case.
  File names are modelled as \<^typ>\<open>string\<close>; the suffixes compared are ASCII.
\<close>

definition endswith :: "string \<Rightarrow> string \<Rightarrow> bool" where
  "endswith s suf \<longleftrightarrow> length suf \<le> length s \<and> drop (length s - length suf) s = suf"

text \<open>\<^verbatim>\<open>str.endswith\<close> with a tuple of suffixes: true when one of them matches.\<close>

definition endswith_any :: "string \<Rightarrow> string list \<Rightarrow> bool" where
  "endswith_any s sufs = list_ex (endswith s) sufs"

text \<open>The tuple of line 15 of \<^verbatim>\<open>scan_codebase.py\<close>.\<close>

definition extensions :: "string list" where
  "extensions = [''.py'', ''.js'', ''.ts'', ''.jsx'', ''.tsx'', ''.css'', ''.html'']"

text \<open>The condition of line 15: \<^verbatim>\<open>file.endswith(('.py', ..., '.html'))\<close>.\<close>

definition selected :: "string \<Rightarrow> bool" where
  "selected file = endswith_any file extensions"

text \<open>
  \<^verbatim>\<open>os.path.join(a, b)\<close> for two components, as \<^verbatim>\<open>posixpath\<close> computes it: an absolute
  \<open>b\<close> replaces \<open>a\<close>; otherwise \<open>b\<close> is appended, after a separator unless \<open>a\<close> is
  empty or already ends with one.
\<close>

definition join :: "string \<Rightarrow> string \<Rightarrow> string" where
  "join a b =
     (if prefix ''/'' b then b
      else if a = [] \<or> endswith a ''/'' then a @ b
      else a @ ''/'' @ b)"

section \<open>The directory tree and \<^verbatim>\<open>os.walk\<close>\<close>

text \<open>
  A directory as \<^verbatim>\<open>os.walk\<close> enumerates it: the names of its entries that are not
  directories, in listing order, and its subdirectories (name and content) in listing
  order. The order is the one of the listing, whatever it is; nothing sorts it.
\<close>

datatype fs = Dir (nondirs: "string list") (subdirs: "(string \<times> fs) list")

text \<open>
  \<^verbatim>\<open>os.walk(dir)\<close>, top-down: the triple \<^verbatim>\<open>(dir, dirnames, filenames)\<close> of the directory
  itself, then the walk of each subdirectory under \<^verbatim>\<open>join(dir, name)\<close>. The generator is
  consumed while uploads run; uploads do not change the local tree, so the list of its
  triples is fixed beforehand.
\<close>

fun walk :: "string \<Rightarrow> fs \<Rightarrow> (string \<times> string list \<times> string list) list" where
  "walk dir (Dir files ds) =
     (dir, map fst ds, files) # concat (map (\<lambda>(name, t). walk (join dir name) t) ds)"

section \<open>The remote service, the local output file and observable effects\<close>

text \<open>
  An exception of class \<^verbatim>\<open>Exception\<close>, the class the handler of line 21 catches;
  \<open>message\<close> is what \<^verbatim>\<open>str(e)\<close> gives. Interrupts of the process from outside
  (\<^verbatim>\<open>KeyboardInterrupt\<close>) are not part of the model.
\<close>

datatype exn = Exception (message: string)

text \<open>
  The argument of \<^verbatim>\<open>generate_content\<close>: a bare string (\<^verbatim>\<open>test_gemini.py\<close>), or a list whose
  items are strings and uploaded-file handles (\<^verbatim>\<open>scan_codebase.py\<close>).
\<close>

datatype 'h part = Text string | FileRef 'h

datatype 'h content = Str string | Parts "'h part list"

text \<open>
  What a run does to the outside, one event per call, in program order. \<open>Print s\<close> is one
  call \<^verbatim>\<open>print(s)\<close>, which writes \<open>s\<close> and the line end to standard output; writing
  to standard output is taken to succeed.
\<close>

datatype 'h event =
    UploadFile string
  | GenerateContent "'h content"
  | Print string
  | OpenWrite string
  | WriteText string string

text \<open>
  The collaborators of the scripts, as parameters. The remote service has a state of type
  \<open>'r\<close> that every call may change, so the same path may succeed once and fail later.
  \<open>upload_file\<close> is \<^verbatim>\<open>genai.upload_file\<close>: a handle, or an exception. \<open>generate_content\<close>
  is \<^verbatim>\<open>model.generate_content\<close> followed by reading \<^verbatim>\<open>.text\<close> of the response: the text,
  or an exception. \<open>open_w path\<close> tells whether \<^verbatim>\<open>open(path, "w")\<close> raises, and
  \<open>write_text s\<close> whether writing \<open>s\<close> (and closing the file) raises.
\<close>

record ('r, 'h) env =
  upload_file :: "'r \<Rightarrow> string \<Rightarrow> (exn + 'h) \<times> 'r"
  generate_content :: "'r \<Rightarrow> 'h content \<Rightarrow> (exn + string) \<times> 'r"
  open_w :: "string \<Rightarrow> exn option"
  write_text :: "string \<Rightarrow> exn option"

text \<open>
  The state a run threads: the remote service's state, the content of the files the run
  may write (by the path given to \<^verbatim>\<open>open\<close>; \<open>None\<close> is "no such file"), and the events
  so far.
\<close>

record ('r, 'h) world =
  remote :: 'r
  disk :: "string \<rightharpoonup> string"
  trace :: "'h event list"

definition initial :: "'r \<Rightarrow> (string \<rightharpoonup> string) \<Rightarrow> ('r, 'h) world" where
  "initial r0 d0 = \<lparr>remote = r0, disk = d0, trace = []\<rparr>"

text \<open>
  How a process ends: it runs off the end of the script, it raises \<^verbatim>\<open>SystemExit(code)\<close>
  (what \<^verbatim>\<open>exit(code)\<close> does; a bare \<^verbatim>\<open>exit()\<close> passes \<^verbatim>\<open>None\<close>), or an exception reaches the
  top level, where the interpreter prints the traceback.
\<close>

datatype outcome = Completed | SystemExit "int option" | Unhandled exn

text \<open>The interpreter's exit status for each ending.\<close>

fun exit_status :: "outcome \<Rightarrow> int" where
  "exit_status Completed = 0"
| "exit_status (SystemExit None) = 0"
| "exit_status (SystemExit (Some n)) = n mod 256"
| "exit_status (Unhandled e) = 1"

section \<open>\<^verbatim>\<open>scan_codebase.py\<close>\<close>

text \<open>
  Lines 16 to 22, the body under the extension test, for one file path. The loop state
  is the list \<^verbatim>\<open>file_objects\<close> and the world. The \<^verbatim>\<open>except Exception\<close> clause catches the
  failure of the upload and prints it; nothing is appended then.
\<close>

definition try_upload ::
  "('r, 'h) env \<Rightarrow> string \<Rightarrow> 'h list \<times> ('r, 'h) world \<Rightarrow> 'h list \<times> ('r, 'h) world" where
  "try_upload env file_path st =
     (case st of (file_objects, w) \<Rightarrow>
        (case upload_file env (remote w) file_path of
           (Inr uploaded_file, r) \<Rightarrow>
             (file_objects @ [uploaded_file],
              w\<lparr>remote := r,
                trace := trace w @ [UploadFile file_path, Print (''Uploaded: '' @ file_path)]\<rparr>)
         | (Inl e, r) \<Rightarrow>
             (file_objects,
              w\<lparr>remote := r,
                trace := trace w @
                  [UploadFile file_path,
                   Print (''Failed to upload '' @ file_path @ '': '' @ message e)]\<rparr>)))"

text \<open>Line 14: \<^verbatim>\<open>for file in files\<close>, with the test of line 15.\<close>

fun files_loop ::
  "('r, 'h) env \<Rightarrow> string \<Rightarrow> string list \<Rightarrow> 'h list \<times> ('r, 'h) world \<Rightarrow>
     'h list \<times> ('r, 'h) world" where
  "files_loop env root [] st = st"
| "files_loop env root (file # files) st =
     files_loop env root files
       (if selected file then try_upload env (join root file) st else st)"

text \<open>Line 13: \<^verbatim>\<open>for root, _, files in os.walk(directory)\<close>.\<close>

fun walk_loop ::
  "('r, 'h) env \<Rightarrow> (string \<times> string list \<times> string list) list \<Rightarrow>
     'h list \<times> ('r, 'h) world \<Rightarrow> 'h list \<times> ('r, 'h) world" where
  "walk_loop env [] st = st"
| "walk_loop env ((root, _, files) # rest) st = walk_loop env rest (files_loop env root files st)"

text \<open>Lines 11 to 23. \<open>tree\<close> is the directory found at \<open>directory\<close>.\<close>

definition upload_codebase_files ::
  "('r, 'h) env \<Rightarrow> string \<Rightarrow> fs \<Rightarrow> ('r, 'h) world \<Rightarrow> 'h list \<times> ('r, 'h) world" where
  "upload_codebase_files env directory tree w = walk_loop env (walk directory tree) ([], w)"

text \<open>Lines 36 to 38: the triple-quoted prompt, with its leading and trailing line feed.\<close>

definition prompt :: string where
  "prompt =
     CHR 0x0A #
     ''Analyze the following uploaded files to identify their structure, key functions, classes, and dependencies. Then, generate documentation in Markdown format, including a README, API documentation, and inline comments where necessary. Ensure the documentation is clear, concise, and follows best practices for [specify your tech stack, e.g., Python, JavaScript, NextJS].''
     @ [CHR 0x0A]"

text \<open>
  Lines 26 to 46, the script. \<open>current_dir\<close> is what \<^verbatim>\<open>os.getcwd()\<close> returns and \<open>tree\<close>
  the directory there. Opening \<^verbatim>\<open>README.md\<close> with mode \<^verbatim>\<open>"w"\<close> creates or empties the file;
  the write then stores the text, character for character (the POSIX text mode, as the
  POSIX \<^const>\<open>join\<close> above). When the write raises, the file is left as the opening
  made it. An exception outside the \<^verbatim>\<open>try\<close> of line 17 has no handler: the run ends
  with it. The import and the client configuration of lines 1 to 8 make no remote call
  and are not modelled.
\<close>

definition scan_codebase ::
  "('r, 'h) env \<Rightarrow> string \<Rightarrow> fs \<Rightarrow> 'r \<Rightarrow> (string \<rightharpoonup> string) \<Rightarrow> outcome \<times> ('r, 'h) world" where
  "scan_codebase env current_dir tree r0 d0 =
     (case upload_codebase_files env current_dir tree (initial r0 d0) of
        (uploaded_files, w1) \<Rightarrow>
          if uploaded_files = [] then
            (SystemExit None,
             w1\<lparr>trace := trace w1 @
               [Print ''No files were uploaded. Please check file extensions or directory.'']\<rparr>)
          else
            (case generate_content env (remote w1)
                    (Parts (Text prompt # map FileRef uploaded_files)) of
               (Inl e, r) \<Rightarrow>
                 (Unhandled e,
                  w1\<lparr>remote := r,
                     trace := trace w1 @
                       [GenerateContent (Parts (Text prompt # map FileRef uploaded_files))]\<rparr>)
             | (Inr text, r) \<Rightarrow>
                 (let w2 = w1\<lparr>remote := r,
                              trace := trace w1 @
                                [GenerateContent (Parts (Text prompt # map FileRef uploaded_files)),
                                 Print text]\<rparr>
                  in case open_w env ''README.md'' of
                       Some e \<Rightarrow>
                         (Unhandled e, w2\<lparr>trace := trace w2 @ [OpenWrite ''README.md'']\<rparr>)
                     | None \<Rightarrow>
                         (let w3 = w2\<lparr>disk := (disk w2)(''README.md'' \<mapsto> []),
                                      trace := trace w2 @ [OpenWrite ''README.md'']\<rparr>
                          in case write_text env text of
                               Some e \<Rightarrow>
                                 (Unhandled e,
                                  w3\<lparr>trace := trace w3 @ [WriteText ''README.md'' text]\<rparr>)
                             | None \<Rightarrow>
                                 (Completed,
                                  w3\<lparr>disk := (disk w3)(''README.md'' \<mapsto> text),
                                     trace := trace w3 @ [WriteText ''README.md'' text]\<rparr>)))))"

section \<open>\<^verbatim>\<open>test_gemini.py\<close>\<close>

text \<open>Lines 10 and 11: one request with a constant prompt, then one \<^verbatim>\<open>print\<close>.\<close>

definition test_gemini ::
  "('r, 'h) env \<Rightarrow> 'r \<Rightarrow> (string \<rightharpoonup> string) \<Rightarrow> outcome \<times> ('r, 'h) world" where
  "test_gemini env r0 d0 =
     (case generate_content env r0 (Str ''What is the capital of France?'') of
        (Inl e, r) \<Rightarrow>
          (Unhandled e,
           \<lparr>remote = r, disk = d0,
            trace = [GenerateContent (Str ''What is the capital of France?'')]\<rparr>)
      | (Inr text, r) \<Rightarrow>
          (Completed,
           \<lparr>remote = r, disk = d0,
            trace = [GenerateContent (Str ''What is the capital of France?''), Print text]\<rparr>))"

section \<open>Reading a trace\<close>

fun uploads :: "'h event list \<Rightarrow> string list" where
  "uploads [] = []"
| "uploads (UploadFile p # es) = p # uploads es"
| "uploads (_ # es) = uploads es"

fun generations :: "'h event list \<Rightarrow> 'h content list" where
  "generations [] = []"
| "generations (GenerateContent c # es) = c # generations es"
| "generations (_ # es) = generations es"

fun prints :: "'h event list \<Rightarrow> string list" where
  "prints [] = []"
| "prints (Print s # es) = s # prints es"
| "prints (_ # es) = prints es"

fun file_ops :: "'h event list \<Rightarrow> 'h event list" where
  "file_ops [] = []"
| "file_ops (OpenWrite p # es) = OpenWrite p # file_ops es"
| "file_ops (WriteText p s # es) = WriteText p s # file_ops es"
| "file_ops (_ # es) = file_ops es"

section \<open>What the walk visits and what the service answers\<close>

text \<open>
  Every file of a tree with the directory path it is found under, in the order
  \<^verbatim>\<open>os.walk\<close> reaches it, defined on the tree itself.
\<close>

fun visited :: "string \<Rightarrow> fs \<Rightarrow> (string \<times> string) list" where
  "visited dir (Dir files ds) =
     map (Pair dir) files @ concat (map (\<lambda>(name, t). visited (join dir name) t) ds)"

text \<open>The visited files that pass the extension test, and the paths built for them.\<close>

definition chosen :: "string \<Rightarrow> fs \<Rightarrow> (string \<times> string) list" where
  "chosen dir tree = filter (\<lambda>(root, file). selected file) (visited dir tree)"

definition targets :: "string \<Rightarrow> fs \<Rightarrow> string list" where
  "targets dir tree = map (\<lambda>(root, file). join root file) (chosen dir tree)"

text \<open>
  The answers of the service to uploads of the given paths, one after the other from
  remote state \<open>r\<close>, and the remote state after them.
\<close>

fun responses :: "('r, 'h) env \<Rightarrow> string list \<Rightarrow> 'r \<Rightarrow> (string \<times> (exn + 'h)) list" where
  "responses env [] r = []"
| "responses env (p # ps) r =
     (p, fst (upload_file env r p)) # responses env ps (snd (upload_file env r p))"

fun remote_after :: "('r, 'h) env \<Rightarrow> string list \<Rightarrow> 'r \<Rightarrow> 'r" where
  "remote_after env [] r = r"
| "remote_after env (p # ps) r = remote_after env ps (snd (upload_file env r p))"

text \<open>The handles of the uploads that succeeded, in order.\<close>

fun successes :: "(string \<times> (exn + 'h)) list \<Rightarrow> 'h list" where
  "successes [] = []"
| "successes ((p, Inr h) # rs) = h # successes rs"
| "successes ((p, Inl e) # rs) = successes rs"

text \<open>The events of one upload attempt, given its answer.\<close>

fun upload_events :: "string \<times> (exn + 'h) \<Rightarrow> 'h event list" where
  "upload_events (p, Inr h) = [UploadFile p, Print (''Uploaded: '' @ p)]"
| "upload_events (p, Inl e) =
     [UploadFile p, Print (''Failed to upload '' @ p @ '': '' @ message e)]"


text \<open>
  A name that ends in one of the extensions, said with the library's \<^const>\<open>suffix\<close>
  instead of the arithmetic of \<^const>\<open>endswith\<close>.
\<close>

definition listed :: "string \<Rightarrow> bool" where
  "listed name = (\<exists>e \<in> set extensions. suffix e name)"

text \<open>ASCII lower case, to speak of upper- and mixed-case variants of a name.\<close>

definition lower :: "char \<Rightarrow> char" where
  "lower c =
     (case map_of (zip ''ABCDEFGHIJKLMNOPQRSTUVWXYZ'' ''abcdefghijklmnopqrstuvwxyz'') c of
        Some d \<Rightarrow> d
      | None \<Rightarrow> c)"

section \<open>Sample inputs\<close>

text \<open>
  A project at \<^verbatim>\<open>/proj\<close> with one subdirectory. The service counts its calls and hands the
  count out as the handle; it refuses \<^verbatim>\<open>/proj/b.css\<close>.
\<close>

definition demo_tree :: fs where
  "demo_tree =
     Dir [''a.py'', ''b.css'', ''notes.txt'']
       [(''src'', Dir [''MAIN.PY'', ''app.tsx'', ''README.md''] [])]"

definition demo_env :: "(nat, nat) env" where
  "demo_env =
     \<lparr>upload_file =
        (\<lambda>r p. (if p = ''/proj/b.css'' then Inl (Exception ''quota'') else Inr r, Suc r)),
      generate_content = (\<lambda>r c. (Inr ''# Project'', Suc r)),
      open_w = (\<lambda>p. None),
      write_text = (\<lambda>s. None)\<rparr>"

text \<open>Variants: every upload fails; the generation fails; the file cannot be opened or written.\<close>

definition refusing_env :: "(nat, nat) env" where
  "refusing_env = demo_env\<lparr>upload_file := (\<lambda>r p. (Inl (Exception ''offline''), Suc r))\<rparr>"

definition mute_env :: "(nat, nat) env" where
  "mute_env = demo_env\<lparr>generate_content := (\<lambda>r c. (Inl (Exception ''blocked''), Suc r))\<rparr>"

definition readonly_env :: "(nat, nat) env" where
  "readonly_env = demo_env\<lparr>open_w := (\<lambda>p. Some (Exception ''Permission denied''))\<rparr>"

definition full_env :: "(nat, nat) env" where
  "full_env = demo_env\<lparr>write_text := (\<lambda>s. Some (Exception ''No space left on device''))\<rparr>"

section \<open>The extension test and paths\<close>

lemma endswith_iff_suffix: "endswith s suf \<longleftrightarrow> suffix suf s"
proof
  assume "endswith s suf"
  then have "s = take (length s - length suf) s @ suf"
    by (metis append_take_drop_id endswith_def)
  then show "suffix suf s" by (metis suffixI)
next
  assume "suffix suf s"
  then obtain zs where "s = zs @ suf" by (auto simp: suffix_def)
  then show "endswith s suf" by (simp add: endswith_def)
qed

lemma selected_listed: "selected name = listed name"
  by (simp add: selected_def listed_def endswith_any_def list_ex_iff endswith_iff_suffix)

section \<open>The walk as a sequence of upload attempts\<close>

lemma files_loop_fold:
  "files_loop env root files st = fold (try_upload env) (map (join root) (filter selected files)) st"
  by (induction files arbitrary: st) simp_all

lemma walk_loop_fold:
  "walk_loop env trs st =
     fold (try_upload env)
       (concat (map (\<lambda>(root, _, files). map (join root) (filter selected files)) trs)) st"
proof (induction trs arbitrary: st)
  case Nil
  then show ?case by simp
next
  case (Cons tr trs)
  obtain root dirs files where tr: "tr = (root, dirs, files)" by (cases tr) auto
  show ?case unfolding tr by (simp add: files_loop_fold Cons)
qed

lemma concat_map_concat_map:
  "concat (map g (concat (map h xs))) = concat (map (\<lambda>x. concat (map g (h x))) xs)"
  by (induction xs) simp_all

lemma map_filter_concat_map:
  "map f (filter P (concat (map h xs))) = concat (map (\<lambda>x. map f (filter P (h x))) xs)"
  by (induction xs) simp_all

lemma walk_targets:
  "concat (map (\<lambda>(root, _, files). map (join root) (filter selected files)) (walk dir tree)) =
     targets dir tree"
  unfolding targets_def chosen_def
proof (induction dir tree rule: walk.induct)
  case (1 dir files ds)
  have sub: "concat (map (\<lambda>(root, _, files). map (join root) (filter selected files))
                 (walk (join dir name) t)) =
             map (\<lambda>(root, file). join root file)
               (filter (\<lambda>(root, file). selected file) (visited (join dir name) t))"
    if "(name, t) \<in> set ds" for name t
    using 1 that by simp
  have here: "map (\<lambda>(root, file). join root file)
                (filter (\<lambda>(root, file). selected file) (map (Pair dir) files)) =
              map (join dir) (filter selected files)"
    by (induction files) simp_all
  have "concat (map (\<lambda>x. concat (map (\<lambda>(root, _, files). map (join root) (filter selected files))
            (case x of (name, t) \<Rightarrow> walk (join dir name) t))) ds) =
        concat (map (\<lambda>x. map (\<lambda>(root, file). join root file)
            (filter (\<lambda>(root, file). selected file)
               (case x of (name, t) \<Rightarrow> visited (join dir name) t))) ds)"
    by (rule arg_cong[where f=concat], rule map_cong) (auto simp: sub)
  then show ?case
    by (simp add: concat_map_concat_map map_filter_concat_map here)
qed

lemma responses_append:
  "responses env (ps @ qs) r = responses env ps r @ responses env qs (remote_after env ps r)"
  by (induction ps arbitrary: r) simp_all

lemma fold_try_upload:
  "fold (try_upload env) ps (fo, w) =
     (fo @ successes (responses env ps (remote w)),
      w\<lparr>remote := remote_after env ps (remote w),
        trace := trace w @ concat (map upload_events (responses env ps (remote w)))\<rparr>)"
proof (induction ps arbitrary: fo w)
  case Nil
  then show ?case by simp
next
  case (Cons p ps)
  show ?case
  proof (cases "upload_file env (remote w) p")
    case (Pair res r)
    then show ?thesis
    proof (cases res)
      case (Inl e)
      have "try_upload env p (fo, w) =
              (fo, w\<lparr>remote := r, trace := trace w @ upload_events (p, res)\<rparr>)"
        using Pair Inl by (simp add: try_upload_def)
      then show ?thesis using Pair Inl by (simp add: Cons)
    next
      case (Inr h)
      have "try_upload env p (fo, w) =
              (fo @ [h], w\<lparr>remote := r, trace := trace w @ upload_events (p, res)\<rparr>)"
        using Pair Inr by (simp add: try_upload_def)
      then show ?thesis using Pair Inr by (simp add: Cons)
    qed
  qed
qed

lemma upload_codebase_files_eq:
  "upload_codebase_files env dir tree w =
     (successes (responses env (targets dir tree) (remote w)),
      w\<lparr>remote := remote_after env (targets dir tree) (remote w),
        trace := trace w @ concat (map upload_events (responses env (targets dir tree) (remote w)))\<rparr>)"
  by (simp add: upload_codebase_files_def walk_loop_fold walk_targets fold_try_upload)


lemma chosen_listed:
  "chosen dir tree = filter (\<lambda>(root, file). listed file) (visited dir tree)"
  by (simp add: chosen_def selected_listed)


lemma join_suffix: "suffix b (join a b)"
  by (simp add: join_def suffix_def)

lemma targets_listed:
  assumes "p \<in> set (targets dir tree)"
  shows "listed p"
proof -
  from assms obtain root fname where rf: "(root, fname) \<in> set (chosen dir tree)"
    and p: "p = join root fname"
    by (auto simp: targets_def)
  from rf have "listed fname" by (simp add: chosen_listed)
  then obtain e where e: "e \<in> set extensions" "suffix e fname" by (auto simp: listed_def)
  have "suffix e p" using e(2) join_suffix[of fname root] p by (metis suffix_order.trans)
  with e(1) show ?thesis by (auto simp: listed_def)
qed

lemma readme_not_listed: "suffix ''README.md'' p \<Longrightarrow> \<not> listed p"
proof
  assume a: "suffix ''README.md'' p" and "listed p"
  then obtain e where e: "e \<in> set extensions" "suffix e p" by (auto simp: listed_def)
  from suffix_same_cases[OF e(2) a] have "suffix e ''README.md'' \<or> suffix ''README.md'' e" .
  with e(1) show False
    by (auto simp: extensions_def suffix_def Cons_eq_append_conv append_eq_Cons_conv)
qed

section \<open>Projections of a trace\<close>

lemma uploads_append: "uploads (xs @ ys) = uploads xs @ uploads ys"
  by (induction xs rule: uploads.induct) simp_all

lemma generations_append: "generations (xs @ ys) = generations xs @ generations ys"
  by (induction xs rule: generations.induct) simp_all

lemma prints_append: "prints (xs @ ys) = prints xs @ prints ys"
  by (induction xs rule: prints.induct) simp_all

lemma file_ops_append: "file_ops (xs @ ys) = file_ops xs @ file_ops ys"
  by (induction xs rule: file_ops.induct) simp_all

lemma generations_upload_events: "generations (concat (map upload_events rs)) = []"
  by (induction rs rule: successes.induct) simp_all

lemma file_ops_upload_events: "file_ops (concat (map upload_events rs)) = []"
  by (induction rs rule: successes.induct) simp_all

lemma uploads_upload_events: "uploads (concat (map upload_events rs)) = map fst rs"
  by (induction rs rule: successes.induct) simp_all


lemma map_fst_responses: "map fst (responses env ps r) = ps"
  by (induction ps arbitrary: r) simp_all

subsection \<open>The five ways the script ends\<close>

lemma scan_none:
  assumes "successes (responses env (targets cwd tree) r0) = []"
  shows "scan_codebase env cwd tree r0 d0 =
           (SystemExit None,
            \<lparr>remote = remote_after env (targets cwd tree) r0, disk = d0,
             trace = concat (map upload_events (responses env (targets cwd tree) r0)) @
               [Print ''No files were uploaded. Please check file extensions or directory.'']\<rparr>)"
  using assms by (simp add: scan_codebase_def upload_codebase_files_eq initial_def)

lemma scan_generate_fails:
  assumes "successes (responses env (targets cwd tree) r0) \<noteq> []"
    and "generate_content env (remote_after env (targets cwd tree) r0)
           (Parts (Text prompt # map FileRef (successes (responses env (targets cwd tree) r0)))) =
         (Inl e, r)"
  shows "scan_codebase env cwd tree r0 d0 =
           (Unhandled e,
            \<lparr>remote = r, disk = d0,
             trace = concat (map upload_events (responses env (targets cwd tree) r0)) @
               [GenerateContent
                  (Parts (Text prompt #
                     map FileRef (successes (responses env (targets cwd tree) r0))))]\<rparr>)"
  using assms by (simp add: scan_codebase_def upload_codebase_files_eq initial_def)

lemma scan_open_fails:
  assumes "successes (responses env (targets cwd tree) r0) \<noteq> []"
    and "generate_content env (remote_after env (targets cwd tree) r0)
           (Parts (Text prompt # map FileRef (successes (responses env (targets cwd tree) r0)))) =
         (Inr text, r)"
    and "open_w env ''README.md'' = Some e"
  shows "scan_codebase env cwd tree r0 d0 =
           (Unhandled e,
            \<lparr>remote = r, disk = d0,
             trace = concat (map upload_events (responses env (targets cwd tree) r0)) @
               [GenerateContent
                  (Parts (Text prompt #
                     map FileRef (successes (responses env (targets cwd tree) r0)))),
                Print text, OpenWrite ''README.md'']\<rparr>)"
  using assms by (simp add: scan_codebase_def upload_codebase_files_eq initial_def Let_def)

lemma scan_write_fails:
  assumes "successes (responses env (targets cwd tree) r0) \<noteq> []"
    and "generate_content env (remote_after env (targets cwd tree) r0)
           (Parts (Text prompt # map FileRef (successes (responses env (targets cwd tree) r0)))) =
         (Inr text, r)"
    and "open_w env ''README.md'' = None"
    and "write_text env text = Some e"
  shows "scan_codebase env cwd tree r0 d0 =
           (Unhandled e,
            \<lparr>remote = r, disk = d0(''README.md'' \<mapsto> []),
             trace = concat (map upload_events (responses env (targets cwd tree) r0)) @
               [GenerateContent
                  (Parts (Text prompt #
                     map FileRef (successes (responses env (targets cwd tree) r0)))),
                Print text, OpenWrite ''README.md'', WriteText ''README.md'' text]\<rparr>)"
  using assms by (simp add: scan_codebase_def upload_codebase_files_eq initial_def Let_def)

lemma scan_completes:
  assumes "successes (responses env (targets cwd tree) r0) \<noteq> []"
    and "generate_content env (remote_after env (targets cwd tree) r0)
           (Parts (Text prompt # map FileRef (successes (responses env (targets cwd tree) r0)))) =
         (Inr text, r)"
    and "open_w env ''README.md'' = None"
    and "write_text env text = None"
  shows "scan_codebase env cwd tree r0 d0 =
           (Completed,
            \<lparr>remote = r, disk = d0(''README.md'' \<mapsto> text),
             trace = concat (map upload_events (responses env (targets cwd tree) r0)) @
               [GenerateContent
                  (Parts (Text prompt #
                     map FileRef (successes (responses env (targets cwd tree) r0)))),
                Print text, OpenWrite ''README.md'', WriteText ''README.md'' text]\<rparr>)"
  using assms by (simp add: scan_codebase_def upload_codebase_files_eq initial_def Let_def)

lemma scan_uploads:
  "uploads (trace (snd (scan_codebase env cwd tree r0 d0))) = targets cwd tree"
  by (simp add: scan_codebase_def upload_codebase_files_eq initial_def Let_def uploads_append
      uploads_upload_events map_fst_responses split: prod.splits sum.splits option.splits)

section \<open>The sample inputs, evaluated\<close>

lemma demo_targets:
  "targets ''/proj'' demo_tree = [''/proj/a.py'', ''/proj/b.css'', ''/proj/src/app.tsx'']"
  by (simp add: targets_def chosen_def demo_tree_def selected_def endswith_any_def
      endswith_def extensions_def join_def)

lemma demo_responses:
  "responses demo_env (targets ''/proj'' demo_tree) 0 =
     [(''/proj/a.py'', Inr 0), (''/proj/b.css'', Inl (Exception ''quota'')),
      (''/proj/src/app.tsx'', Inr 2)]"
  by (simp add: demo_targets demo_env_def)

lemma refusing_responses:
  "responses refusing_env (targets ''/proj'' demo_tree) 0 =
     [(''/proj/a.py'', Inl (Exception ''offline'')), (''/proj/b.css'', Inl (Exception ''offline'')),
      (''/proj/src/app.tsx'', Inl (Exception ''offline''))]"
  by (simp add: demo_targets refusing_env_def demo_env_def)

lemma mute_responses:
  "responses mute_env (targets ''/proj'' demo_tree) 0 =
     [(''/proj/a.py'', Inr 0), (''/proj/b.css'', Inl (Exception ''quota'')),
      (''/proj/src/app.tsx'', Inr 2)]"
  by (simp add: demo_targets mute_env_def demo_env_def)

lemma readonly_responses:
  "responses readonly_env (targets ''/proj'' demo_tree) 0 =
     [(''/proj/a.py'', Inr 0), (''/proj/b.css'', Inl (Exception ''quota'')),
      (''/proj/src/app.tsx'', Inr 2)]"
  by (simp add: demo_targets readonly_env_def demo_env_def)

lemma full_responses:
  "responses full_env (targets ''/proj'' demo_tree) 0 =
     [(''/proj/a.py'', Inr 0), (''/proj/b.css'', Inl (Exception ''quota'')),
      (''/proj/src/app.tsx'', Inr 2)]"
  by (simp add: demo_targets full_env_def demo_env_def)

section \<open>Properties of the documentation generator\<close>









text \<open>
  C5. When the run completes, the generation call returned a text, and the file
  \<^verbatim>\<open>README.md\<close> holds exactly that text whatever it held before; no other file changed.
\<close>

theorem completed_run_replaces_readme:
  assumes "fst (scan_codebase env current_dir tree r0 d0) = Completed"
  shows "\<exists>text r.
           generate_content env (remote_after env (targets current_dir tree) r0)
             (Parts (Text prompt #
                map FileRef (successes (responses env (targets current_dir tree) r0)))) =
             (Inr text, r) \<and>
           disk (snd (scan_codebase env current_dir tree r0 d0)) = d0(''README.md'' \<mapsto> text) \<and>
           disk (snd (scan_codebase env current_dir tree r0 d0)) ''README.md'' = Some text"
  using assms
  by (auto simp add: scan_codebase_def upload_codebase_files_eq initial_def Let_def
      split: prod.splits sum.splits option.splits if_splits)

theorem completed_run_replaces_readme_witness:
  "fst (scan_codebase demo_env ''/proj'' demo_tree 0 [''README.md'' \<mapsto> ''old text'']) = Completed \<and>
   disk (snd (scan_codebase demo_env ''/proj'' demo_tree 0 [''README.md'' \<mapsto> ''old text'']))
     ''README.md'' = Some ''# Project''"
proof -
  have s: "successes (responses demo_env (targets ''/proj'' demo_tree) 0) \<noteq> []"
    by (simp add: demo_responses)
  have g: "generate_content demo_env (remote_after demo_env (targets ''/proj'' demo_tree) 0)
             (Parts (Text prompt #
                map FileRef (successes (responses demo_env (targets ''/proj'' demo_tree) 0)))) =
           (Inr ''# Project'', 4)"
    by (simp add: demo_env_def demo_targets)
  have h: "fst (scan_codebase demo_env ''/proj'' demo_tree 0 [''README.md'' \<mapsto> ''old text'']) =
             Completed"
  proof -
    have "open_w demo_env ''README.md'' = None" and "write_text demo_env ''# Project'' = None"
      by (simp_all add: demo_env_def)
    from scan_completes[OF s g this] show ?thesis by simp
  qed
  from completed_run_replaces_readme[OF h] g h
  show ?thesis by auto
qed

text \<open>
  C7. With at least one handle collected, an exception raised by the generation call, by
  opening the output file or by writing it ends the run as the unhandled exception it
  is: the failing call is the last event, the generation call was made once and each file
  operation at most once.
\<close>

theorem generation_and_write_failures_are_unhandled:
  assumes "successes (responses env (targets current_dir tree) r0) \<noteq> []"
  shows
    "(\<forall>e r. generate_content env (remote_after env (targets current_dir tree) r0)
              (Parts (Text prompt #
                 map FileRef (successes (responses env (targets current_dir tree) r0)))) =
              (Inl e, r) \<longrightarrow>
        fst (scan_codebase env current_dir tree r0 d0) = Unhandled e \<and>
        length (generations (trace (snd (scan_codebase env current_dir tree r0 d0)))) = 1 \<and>
        last (trace (snd (scan_codebase env current_dir tree r0 d0))) =
          GenerateContent (Parts (Text prompt #
            map FileRef (successes (responses env (targets current_dir tree) r0)))) \<and>
        disk (snd (scan_codebase env current_dir tree r0 d0)) = d0) \<and>
     (\<forall>text r e. generate_content env (remote_after env (targets current_dir tree) r0)
              (Parts (Text prompt #
                 map FileRef (successes (responses env (targets current_dir tree) r0)))) =
              (Inr text, r) \<and>
            open_w env ''README.md'' = Some e \<longrightarrow>
        fst (scan_codebase env current_dir tree r0 d0) = Unhandled e \<and>
        length (generations (trace (snd (scan_codebase env current_dir tree r0 d0)))) = 1 \<and>
        file_ops (trace (snd (scan_codebase env current_dir tree r0 d0))) =
          [OpenWrite ''README.md''] \<and>
        last (trace (snd (scan_codebase env current_dir tree r0 d0))) = OpenWrite ''README.md'') \<and>
     (\<forall>text r e. generate_content env (remote_after env (targets current_dir tree) r0)
              (Parts (Text prompt #
                 map FileRef (successes (responses env (targets current_dir tree) r0)))) =
              (Inr text, r) \<and>
            open_w env ''README.md'' = None \<and> write_text env text = Some e \<longrightarrow>
        fst (scan_codebase env current_dir tree r0 d0) = Unhandled e \<and>
        length (generations (trace (snd (scan_codebase env current_dir tree r0 d0)))) = 1 \<and>
        file_ops (trace (snd (scan_codebase env current_dir tree r0 d0))) =
          [OpenWrite ''README.md'', WriteText ''README.md'' text] \<and>
        last (trace (snd (scan_codebase env current_dir tree r0 d0))) =
          WriteText ''README.md'' text)"
proof (intro conjI allI impI)
  fix e r
  assume "generate_content env (remote_after env (targets current_dir tree) r0)
              (Parts (Text prompt #
                 map FileRef (successes (responses env (targets current_dir tree) r0)))) =
              (Inl e, r)"
  note s = scan_generate_fails[OF assms this, of d0]
  show "fst (scan_codebase env current_dir tree r0 d0) = Unhandled e"
    and "length (generations (trace (snd (scan_codebase env current_dir tree r0 d0)))) = 1"
    and "last (trace (snd (scan_codebase env current_dir tree r0 d0))) =
          GenerateContent (Parts (Text prompt #
            map FileRef (successes (responses env (targets current_dir tree) r0))))"
    and "disk (snd (scan_codebase env current_dir tree r0 d0)) = d0"
    by (simp_all add: s generations_append generations_upload_events)
next
  fix body r e
  assume "generate_content env (remote_after env (targets current_dir tree) r0)
              (Parts (Text prompt #
                 map FileRef (successes (responses env (targets current_dir tree) r0)))) =
              (Inr body, r) \<and>
            open_w env ''README.md'' = Some e"
  then have s: "scan_codebase env current_dir tree r0 d0 =
           (Unhandled e,
            \<lparr>remote = r, disk = d0,
             trace = concat (map upload_events (responses env (targets current_dir tree) r0)) @
               [GenerateContent
                  (Parts (Text prompt #
                     map FileRef (successes (responses env (targets current_dir tree) r0)))),
                Print body, OpenWrite ''README.md'']\<rparr>)"
    using scan_open_fails[OF assms] by blast
  show "fst (scan_codebase env current_dir tree r0 d0) = Unhandled e"
    and "length (generations (trace (snd (scan_codebase env current_dir tree r0 d0)))) = 1"
    and "file_ops (trace (snd (scan_codebase env current_dir tree r0 d0))) =
          [OpenWrite ''README.md'']"
    and "last (trace (snd (scan_codebase env current_dir tree r0 d0))) = OpenWrite ''README.md''"
    by (simp_all add: s generations_append generations_upload_events
        file_ops_append file_ops_upload_events)
next
  fix body r e
  assume "generate_content env (remote_after env (targets current_dir tree) r0)
              (Parts (Text prompt #
                 map FileRef (successes (responses env (targets current_dir tree) r0)))) =
              (Inr body, r) \<and>
            open_w env ''README.md'' = None \<and> write_text env body = Some e"
  then have s: "scan_codebase env current_dir tree r0 d0 =
           (Unhandled e,
            \<lparr>remote = r, disk = d0(''README.md'' \<mapsto> []),
             trace = concat (map upload_events (responses env (targets current_dir tree) r0)) @
               [GenerateContent
                  (Parts (Text prompt #
                     map FileRef (successes (responses env (targets current_dir tree) r0)))),
                Print body, OpenWrite ''README.md'', WriteText ''README.md'' body]\<rparr>)"
    using scan_write_fails[OF assms] by blast
  show "fst (scan_codebase env current_dir tree r0 d0) = Unhandled e"
    and "length (generations (trace (snd (scan_codebase env current_dir tree r0 d0)))) = 1"
    and "file_ops (trace (snd (scan_codebase env current_dir tree r0 d0))) =
          [OpenWrite ''README.md'', WriteText ''README.md'' body]"
    and "last (trace (snd (scan_codebase env current_dir tree r0 d0))) =
          WriteText ''README.md'' body"
    by (simp_all add: s generations_append generations_upload_events
        file_ops_append file_ops_upload_events)
qed

theorem generation_and_write_failures_are_unhandled_witness:
  "successes (responses mute_env (targets ''/proj'' demo_tree) 0) \<noteq> [] \<and>
   generate_content mute_env (remote_after mute_env (targets ''/proj'' demo_tree) 0)
     (Parts (Text prompt #
        map FileRef (successes (responses mute_env (targets ''/proj'' demo_tree) 0)))) =
     (Inl (Exception ''blocked''), 4) \<and>
   fst (scan_codebase mute_env ''/proj'' demo_tree 0 Map.empty) = Unhandled (Exception ''blocked'') \<and>
   length (generations (trace (snd (scan_codebase mute_env ''/proj'' demo_tree 0 Map.empty)))) = 1 \<and>
   successes (responses readonly_env (targets ''/proj'' demo_tree) 0) \<noteq> [] \<and>
   generate_content readonly_env (remote_after readonly_env (targets ''/proj'' demo_tree) 0)
     (Parts (Text prompt #
        map FileRef (successes (responses readonly_env (targets ''/proj'' demo_tree) 0)))) =
     (Inr ''# Project'', 4) \<and>
   open_w readonly_env ''README.md'' = Some (Exception ''Permission denied'') \<and>
   fst (scan_codebase readonly_env ''/proj'' demo_tree 0 Map.empty) =
     Unhandled (Exception ''Permission denied'') \<and>
   file_ops (trace (snd (scan_codebase readonly_env ''/proj'' demo_tree 0 Map.empty))) =
     [OpenWrite ''README.md''] \<and>
   successes (responses full_env (targets ''/proj'' demo_tree) 0) \<noteq> [] \<and>
   generate_content full_env (remote_after full_env (targets ''/proj'' demo_tree) 0)
     (Parts (Text prompt #
        map FileRef (successes (responses full_env (targets ''/proj'' demo_tree) 0)))) =
     (Inr ''# Project'', 4) \<and>
   open_w full_env ''README.md'' = None \<and>
   write_text full_env ''# Project'' = Some (Exception ''No space left on device'') \<and>
   fst (scan_codebase full_env ''/proj'' demo_tree 0 Map.empty) =
     Unhandled (Exception ''No space left on device'') \<and>
   file_ops (trace (snd (scan_codebase full_env ''/proj'' demo_tree 0 Map.empty))) =
     [OpenWrite ''README.md'', WriteText ''README.md'' ''# Project'']"
proof -
  have h1: "successes (responses mute_env (targets ''/proj'' demo_tree) 0) \<noteq> []"
    by (simp add: mute_responses)
  have g1: "generate_content mute_env (remote_after mute_env (targets ''/proj'' demo_tree) 0)
     (Parts (Text prompt #
        map FileRef (successes (responses mute_env (targets ''/proj'' demo_tree) 0)))) =
     (Inl (Exception ''blocked''), 4)"
    by (simp add: mute_env_def demo_env_def demo_targets)
  have h2: "successes (responses readonly_env (targets ''/proj'' demo_tree) 0) \<noteq> []"
    by (simp add: readonly_responses)
  have g2: "generate_content readonly_env
     (remote_after readonly_env (targets ''/proj'' demo_tree) 0)
     (Parts (Text prompt #
        map FileRef (successes (responses readonly_env (targets ''/proj'' demo_tree) 0)))) =
     (Inr ''# Project'', 4)"
    by (simp add: readonly_env_def demo_env_def demo_targets)
  have o2: "open_w readonly_env ''README.md'' = Some (Exception ''Permission denied'')"
    by (simp add: readonly_env_def)
  have h3: "successes (responses full_env (targets ''/proj'' demo_tree) 0) \<noteq> []"
    by (simp add: full_responses)
  have g3: "generate_content full_env (remote_after full_env (targets ''/proj'' demo_tree) 0)
     (Parts (Text prompt #
        map FileRef (successes (responses full_env (targets ''/proj'' demo_tree) 0)))) =
     (Inr ''# Project'', 4)"
    by (simp add: full_env_def demo_env_def demo_targets)
  have o3: "open_w full_env ''README.md'' = None"
    by (simp add: full_env_def demo_env_def)
  have w3: "write_text full_env ''# Project'' = Some (Exception ''No space left on device'')"
    by (simp add: full_env_def)
  from generation_and_write_failures_are_unhandled[OF h1, of Map.empty] g1
  have r1: "fst (scan_codebase mute_env ''/proj'' demo_tree 0 Map.empty) =
              Unhandled (Exception ''blocked'') \<and>
            length (generations (trace (snd (scan_codebase mute_env ''/proj'' demo_tree 0
              Map.empty)))) = 1"
    by blast
  from generation_and_write_failures_are_unhandled[OF h2, of Map.empty] g2 o2
  have r2: "fst (scan_codebase readonly_env ''/proj'' demo_tree 0 Map.empty) =
              Unhandled (Exception ''Permission denied'') \<and>
            file_ops (trace (snd (scan_codebase readonly_env ''/proj'' demo_tree 0 Map.empty))) =
              [OpenWrite ''README.md'']"
    by blast
  from generation_and_write_failures_are_unhandled[OF h3, of Map.empty] g3 o3 w3
  have r3: "fst (scan_codebase full_env ''/proj'' demo_tree 0 Map.empty) =
              Unhandled (Exception ''No space left on device'') \<and>
            file_ops (trace (snd (scan_codebase full_env ''/proj'' demo_tree 0 Map.empty))) =
              [OpenWrite ''README.md'', WriteText ''README.md'' ''# Project'']"
    by blast
  from h1 g1 r1 h2 g2 o2 r2 h3 g3 o3 w3 r3 show ?thesis by blast
qed

text \<open>
  C8. When no upload succeeds the run ends by a bare \<^verbatim>\<open>exit()\<close>, that is
  \<^verbatim>\<open>SystemExit(None)\<close>, whose exit status is 0, the status of a run that completes.
\<close>

theorem early_exit_has_status_zero:
  assumes "successes (responses env (targets current_dir tree) r0) = []"
  shows "fst (scan_codebase env current_dir tree r0 d0) = SystemExit None \<and>
         exit_status (fst (scan_codebase env current_dir tree r0 d0)) = 0 \<and>
         exit_status (fst (scan_codebase env current_dir tree r0 d0)) = exit_status Completed"
  by (simp add: scan_none[OF assms])

theorem early_exit_has_status_zero_witness:
  "successes (responses refusing_env (targets ''/proj'' demo_tree) 0) = [] \<and>
   fst (scan_codebase refusing_env ''/proj'' demo_tree 0 Map.empty) = SystemExit None \<and>
   exit_status (fst (scan_codebase refusing_env ''/proj'' demo_tree 0 Map.empty)) = 0"
proof -
  have h: "successes (responses refusing_env (targets ''/proj'' demo_tree) 0) = []"
    by (simp add: refusing_responses)
  from early_exit_has_status_zero[OF h, of Map.empty] h
  show ?thesis by simp
qed

text \<open>
  C9. The name \<^verbatim>\<open>README.md\<close> fails the extension test, and no run attempts to upload
  a file of that name from any directory.
\<close>

theorem readme_is_never_uploaded:
  "\<not> selected ''README.md'' \<and>
   (\<forall>root. join root ''README.md'' \<notin>
      set (uploads (trace (snd (scan_codebase env current_dir tree r0 d0)))))"
proof (intro conjI allI)
  show "\<not> selected ''README.md''"
    using readme_not_listed[of "''README.md''"] by (simp add: selected_listed)
next
  fix root
  show "join root ''README.md'' \<notin>
      set (uploads (trace (snd (scan_codebase env current_dir tree r0 d0))))"
    using readme_not_listed[OF join_suffix[of "''README.md''" root]] targets_listed
    by (auto simp: scan_uploads)
qed

theorem readme_is_never_uploaded_witness:
  "(''/proj/src'', ''README.md'') \<in> set (visited ''/proj'' demo_tree) \<and>
   join ''/proj/src'' ''README.md'' \<notin>
      set (uploads (trace (snd (scan_codebase demo_env ''/proj'' demo_tree 0 Map.empty))))"
proof -
  have v: "(''/proj/src'', ''README.md'') \<in> set (visited ''/proj'' demo_tree)"
    by (simp add: demo_tree_def join_def endswith_def)
  from readme_is_never_uploaded[of demo_env "''/proj''" demo_tree 0 Map.empty] v
  show ?thesis by blast
qed

text \<open>
  C10. A file whose name ends in a listed extension only after lower-casing is skipped
  by the loop without any effect, is not among the chosen files of any tree, and the
  upload attempts of a run are the paths of the chosen files only.
\<close>

theorem extension_test_is_case_sensitive:
  assumes "endswith_any (map lower name) extensions" and "\<not> endswith_any name extensions"
  shows "files_loop env root [name] st = st \<and>
         (root, name) \<notin> set (chosen current_dir tree) \<and>
         uploads (trace (snd (scan_codebase env current_dir tree r0 d0))) =
           map (\<lambda>(root, file). join root file) (chosen current_dir tree)"
  using assms by (simp add: selected_def chosen_def scan_uploads targets_def)

theorem extension_test_is_case_sensitive_witness:
  "endswith_any (map lower ''MAIN.PY'') extensions \<and> \<not> endswith_any ''MAIN.PY'' extensions \<and>
   (''/proj/src'', ''MAIN.PY'') \<in> set (visited ''/proj'' demo_tree) \<and>
   (''/proj/src'', ''MAIN.PY'') \<notin> set (chosen ''/proj'' demo_tree) \<and>
   uploads (trace (snd (scan_codebase demo_env ''/proj'' demo_tree 0 Map.empty))) =
     [''/proj/a.py'', ''/proj/b.css'', ''/proj/src/app.tsx'']"
proof -
  have a: "endswith_any (map lower ''MAIN.PY'') extensions"
    by (simp add: endswith_any_def endswith_def extensions_def lower_def)
  have b: "\<not> endswith_any ''MAIN.PY'' extensions"
    by (simp add: endswith_any_def endswith_def extensions_def)
  have v: "(''/proj/src'', ''MAIN.PY'') \<in> set (visited ''/proj'' demo_tree)"
    by (simp add: demo_tree_def join_def endswith_def)
  from extension_test_is_case_sensitive
      [OF a b, of demo_env "''/proj/src''" _ "''/proj''" demo_tree 0 Map.empty] a b v
  show ?thesis by (simp add: demo_targets[unfolded targets_def])
qed

section \<open>Properties of the connectivity check\<close>

text \<open>
  C6. A run issues exactly one generation request, with the prompt
  "What is the capital of France?"; when the service answers, the run prints the text of
  the answer and nothing else, and when the request fails nothing is printed.
\<close>

theorem connectivity_check_one_request_one_print:
  "generations (trace (snd (test_gemini env r0 d0))) = [Str ''What is the capital of France?''] \<and>
   (\<forall>text r. generate_content env r0 (Str ''What is the capital of France?'') = (Inr text, r) \<longrightarrow>
      fst (test_gemini env r0 d0) = Completed \<and>
      trace (snd (test_gemini env r0 d0)) =
        [GenerateContent (Str ''What is the capital of France?''), Print text] \<and>
      prints (trace (snd (test_gemini env r0 d0))) = [text]) \<and>
   (\<forall>e r. generate_content env r0 (Str ''What is the capital of France?'') = (Inl e, r) \<longrightarrow>
      fst (test_gemini env r0 d0) = Unhandled e \<and>
      prints (trace (snd (test_gemini env r0 d0))) = [])"
  by (auto simp add: test_gemini_def split: prod.splits sum.splits)

theorem connectivity_check_one_request_one_print_witness:
  "generate_content demo_env 0 (Str ''What is the capital of France?'') = (Inr ''# Project'', 1) \<and>
   generations (trace (snd (test_gemini demo_env 0 Map.empty))) =
     [Str ''What is the capital of France?''] \<and>
   prints (trace (snd (test_gemini demo_env 0 Map.empty))) = [''# Project''] \<and>
   generate_content mute_env 0 (Str ''What is the capital of France?'') =
     (Inl (Exception ''blocked''), 1) \<and>
   generations (trace (snd (test_gemini mute_env 0 Map.empty))) =
     [Str ''What is the capital of France?''] \<and>
   prints (trace (snd (test_gemini mute_env 0 Map.empty))) = []"
proof -
  have h: "generate_content demo_env 0 (Str ''What is the capital of France?'') =
             (Inr ''# Project'', 1)"
    by (simp add: demo_env_def)
  have k: "generate_content mute_env 0 (Str ''What is the capital of France?'') =
             (Inl (Exception ''blocked''), 1)"
    by (simp add: mute_env_def demo_env_def)
  from connectivity_check_one_request_one_print[of demo_env 0 Map.empty]
    connectivity_check_one_request_one_print[of mute_env 0 Map.empty] h k
  show ?thesis by simp
qed

end
